theory Spec2Isabelle
  imports Main
begin

section \<open>TradeSignalFlux: the news-to-signal pipeline of \<open>src/main.py\<close>\<close>

text \<open>
  The bot polls a news feed, skips the articles whose fingerprint it has already stored,
  sends each remaining headline to a text-analysis service, extracts six labelled fields
  from the reply with regular expressions, and sends a message for the articles whose
  \<open>Ticker\<close> field was extracted.

  Text is a \<open>string\<close> (a list of bytes). The model is exact on ASCII text: a character
  above 127 is carried as its UTF-8 bytes, and no such byte is a letter or a blank.
  Remote services, the clock, the state file and the two library functions the code
  calls without defining them (the MD5 digest and the ISO date conversion) are inputs of
  the model, collected in the record \<open>world\<close>.
\<close>

subsection \<open>Characters\<close>

definition upper_letters :: string where
  "upper_letters = ''ABCDEFGHIJKLMNOPQRSTUVWXYZ''"

definition lower_letters :: string where
  "lower_letters = ''abcdefghijklmnopqrstuvwxyz''"

definition LF :: char where
  "LF = CHR 0x0A"

definition CR :: char where
  "CR = CHR 0x0D"


definition is_alpha :: "char \<Rightarrow> bool" where
  "is_alpha c \<longleftrightarrow> c \<in> set (upper_letters @ lower_letters)"

text \<open>\<open>str.lower\<close>, and the case folding of \<open>re.IGNORECASE\<close>, on one character.\<close>

definition lower :: "char \<Rightarrow> char" where
  "lower c = (case map_of (zip upper_letters lower_letters) c of Some d \<Rightarrow> d | None \<Rightarrow> c)"

text \<open>
  The characters that \<open>\s\<close> matches and that \<open>str.strip\<close> removes: tab, line feed,
  vertical tab, form feed, carriage return, the four separators 0x1C to 0x1F, and space.
\<close>

definition is_space :: "char \<Rightarrow> bool" where
  "is_space c \<longleftrightarrow>
     c \<in> set [CHR 0x09, CHR 0x0A, CHR 0x0B, CHR 0x0C, CHR 0x0D,
               CHR 0x1C, CHR 0x1D, CHR 0x1E, CHR 0x1F, CHR 0x20]"

text \<open>The characters that \<open>.\<close> matches (the patterns are compiled without \<open>DOTALL\<close>).\<close>

definition not_newline :: "char \<Rightarrow> bool" where
  "not_newline c \<longleftrightarrow> c \<noteq> LF"

definition strip :: "string \<Rightarrow> string" where
  "strip s = rev (dropWhile is_space (rev (dropWhile is_space s)))"

subsection \<open>Regular expressions as backtracking matchers\<close>

text \<open>
  A matcher maps the text that is left to read to the list of the texts that can be left
  after it has matched, in the order in which the backtracking engine of \<open>re\<close> tries
  them: a greedy repetition offers its longest match first, a lazy one its shortest, and
  an alternation its left branch first. The empty list is a failed match.
\<close>

type_synonym matcher = "string \<Rightarrow> string list"

text \<open>A literal word, compared case-insensitively.\<close>

fun lit :: "string \<Rightarrow> matcher" where
  "lit [] s = [s]"
| "lit (c # cs) [] = []"
| "lit (c # cs) (d # ds) = (if lower c = lower d then lit cs ds else [])"

text \<open>One character of a class.\<close>

fun one :: "(char \<Rightarrow> bool) \<Rightarrow> matcher" where
  "one P [] = []"
| "one P (c # cs) = (if P c then [cs] else [])"

text \<open>\<open>x*\<close> for a character class \<open>x\<close>.\<close>

fun star_greedy :: "(char \<Rightarrow> bool) \<Rightarrow> matcher" where
  "star_greedy P [] = [[]]"
| "star_greedy P (c # cs) = (if P c then star_greedy P cs @ [c # cs] else [c # cs])"

text \<open>\<open>x*?\<close> and \<open>x+?\<close>.\<close>

fun star_lazy :: "(char \<Rightarrow> bool) \<Rightarrow> matcher" where
  "star_lazy P [] = [[]]"
| "star_lazy P (c # cs) = (c # cs) # (if P c then star_lazy P cs else [])"

fun plus_lazy :: "(char \<Rightarrow> bool) \<Rightarrow> matcher" where
  "plus_lazy P [] = []"
| "plus_lazy P (c # cs) = (if P c then star_lazy P cs else [])"

text \<open>\<open>x{0,n}\<close>.\<close>

fun upto_greedy :: "nat \<Rightarrow> (char \<Rightarrow> bool) \<Rightarrow> matcher" where
  "upto_greedy 0 P s = [s]"
| "upto_greedy (Suc n) P [] = [[]]"
| "upto_greedy (Suc n) P (c # cs) =
     (if P c then upto_greedy n P cs @ [c # cs] else [c # cs])"

definition seq :: "matcher \<Rightarrow> matcher \<Rightarrow> matcher" where
  "seq a b s = concat (map b (a s))"

definition alt :: "matcher \<Rightarrow> matcher \<Rightarrow> matcher" where
  "alt a b s = a s @ b s"

text \<open>\<open>(?=a)\<close> reads nothing.\<close>

definition lookahead :: "matcher \<Rightarrow> matcher" where
  "lookahead a s = (if a s = [] then [] else [s])"

text \<open>
  \<open>$\<close> without \<open>MULTILINE\<close>: the end of the text, or just before a line feed that
  ends the text.
\<close>

definition eos :: matcher where
  "eos s = (if s = [] \<or> s = [LF] then [s] else [])"

definition nothing :: matcher where
  "nothing s = [s]"

text \<open>
  Each of the six patterns of \<open>_parse_analysis\<close> is a label part, then its one capturing
  group, then a (possibly empty) lookahead; so group 1 takes part in every match. All
  six are searched with \<open>re.IGNORECASE\<close>: a literal matches in either case, and so does
  the class \<open>[A-Z]\<close>, which is \<open>is_alpha\<close> below.
\<close>

record pattern =
  pre :: matcher
  grp :: matcher
  post :: matcher

text \<open>The first alternative, in order, on which \<open>f\<close> succeeds.\<close>

fun first_some :: "('a \<Rightarrow> 'b option) \<Rightarrow> 'a list \<Rightarrow> 'b option" where
  "first_some f [] = None"
| "first_some f (x # xs) = (case f x of Some y \<Rightarrow> Some y | None \<Rightarrow> first_some f xs)"

text \<open>
  A match that starts at the head of \<open>s\<close>; the result is \<open>group(1)\<close>, the text that the
  group read between \<open>r1\<close> and \<open>r2\<close>.
\<close>

definition match_at :: "pattern \<Rightarrow> string \<Rightarrow> string option" where
  "match_at p s =
     first_some (\<lambda>r1.
       first_some (\<lambda>r2. if post p r2 = [] then None
                        else Some (take (length r1 - length r2) r1))
         (grp p r1))
       (pre p s)"

text \<open>\<open>re.search\<close>: the match at the leftmost position that has one.\<close>

fun search :: "pattern \<Rightarrow> string \<Rightarrow> string option" where
  "search p [] = match_at p []"
| "search p (c # cs) =
     (case match_at p (c # cs) of Some g \<Rightarrow> Some g | None \<Rightarrow> search p cs)"

text \<open>A label followed by \<open>\s*\<close>.\<close>

definition label :: "string \<Rightarrow> matcher" where
  "label l = seq (lit l) (star_greedy is_space)"

definition recommendation_pattern :: pattern where
  "recommendation_pattern =
     \<lparr>pre = label ''Recommendation:'',
      grp = alt (lit ''Buy'') (alt (lit ''Sell'') (lit ''Hold'')),
      post = nothing\<rparr>"

definition confidence_pattern :: pattern where
  "confidence_pattern =
     \<lparr>pre = label ''Confidence:'',
      grp = alt (lit ''Low'') (alt (lit ''Medium'') (lit ''High'')),
      post = nothing\<rparr>"

definition risk_pattern :: pattern where
  "risk_pattern =
     \<lparr>pre = label ''Risk:'',
      grp = alt (lit ''Low'') (alt (lit ''Medium'') (lit ''High'')),
      post = nothing\<rparr>"

definition why_pattern :: pattern where
  "why_pattern =
     \<lparr>pre = label ''Why:'',
      grp = star_lazy not_newline,
      post = lookahead (alt (seq (star_greedy is_space) (lit ''Ticker:'')) eos)\<rparr>"

definition ticker_pattern :: pattern where
  "ticker_pattern =
     \<lparr>pre = label ''Ticker:'',
      grp = seq (one is_alpha) (upto_greedy 4 is_alpha),
      post = nothing\<rparr>"

definition sector_pattern :: pattern where
  "sector_pattern =
     \<lparr>pre = label ''Sector:'',
      grp = plus_lazy not_newline,
      post = lookahead eos\<rparr>"

definition patterns :: "(string \<times> pattern) list" where
  "patterns =
     [(''Recommendation'', recommendation_pattern),
      (''Confidence'', confidence_pattern),
      (''Risk'', risk_pattern),
      (''Why'', why_pattern),
      (''Ticker'', ticker_pattern),
      (''Sector'', sector_pattern)]"

text \<open>The dictionary that \<open>_parse_analysis\<close> builds, in insertion order.\<close>

type_synonym analysis = "(string \<times> string) list"

definition parse_analysis :: "string \<Rightarrow> analysis" where
  "parse_analysis content =
     map (\<lambda>(key, p). (key, case search p content of Some g \<Rightarrow> strip g | None \<Rightarrow> ''N/A''))
       patterns"

text \<open>\<open>d.get(key)\<close> and \<open>d.get(key, default)\<close>.\<close>

definition get :: "analysis \<Rightarrow> string \<Rightarrow> string option" where
  "get d key = map_of d key"

definition get_or :: "analysis \<Rightarrow> string \<Rightarrow> string \<Rightarrow> string" where
  "get_or d key dflt = (case map_of d key of Some v \<Rightarrow> v | None \<Rightarrow> dflt)"

subsection \<open>Articles\<close>

text \<open>
  An article is a JSON object. A field read with \<open>article.get\<close> is absent (\<open>None\<close>
  below), or holds a string, \<open>null\<close>, or some other JSON value; of such a value the code
  only uses its rendering by \<open>str\<close> (in an f-string) and its truth value, so these two
  stand for it.
\<close>

datatype jval = JNull | JStr string | JOther string bool

fun py_str :: "jval \<Rightarrow> string" where
  "py_str JNull = ''None''"
| "py_str (JStr s) = s"
| "py_str (JOther rendering truth) = rendering"

fun truthy :: "jval \<Rightarrow> bool" where
  "truthy JNull = False"
| "truthy (JStr s) = (s \<noteq> [])"
| "truthy (JOther rendering truth) = truth"

text \<open>
  The \<open>source\<close> field: an object, of which only the entry \<open>name\<close> is read, or any
  value that is not an object (\<open>null\<close>, a string, a number, an array).
\<close>

datatype jsource = SourceObject "jval option" | SourceNotObject

record article =
  title :: "jval option"
  description :: "jval option"
  url :: "jval option"
  publishedAt :: "jval option"
  source :: "jsource option"

text \<open>\<open>article.get(key, default)\<close> rendered by an f-string.\<close>

definition field_str :: "jval option \<Rightarrow> string \<Rightarrow> string" where
  "field_str v dflt = (case v of None \<Rightarrow> dflt | Some x \<Rightarrow> py_str x)"

subsection \<open>Exceptions, events, state and the outside world\<close>

datatype py_error =
    FileNotFoundError | OSError | RequestException | HTTPError
  | ValueError | AttributeError | TypeError

datatype level = Debug | Info | Warning | Error

text \<open>
  The trace lists, oldest first, what the bot did to the outside. An analysis request
  and a message carry the fingerprint of the article they are made for. The text of a
  log record is kept up to its first interpolated value.
\<close>

datatype event =
    Get string
  | Analyze string string
  | Send string string
  | Sleep nat
  | Log level string

datatype disk_file = Missing | Unreadable | Content string

record state =
  processed_articles :: "string set"
  state_file :: disk_file
  trace :: "event list"

datatype feed_reply =
    ConnectionFailed
  | BadStatus nat
  | NotJson
  | NotObject
  | NoArticles
  | ArticlesNotList
  | Articles "article list"

datatype analyzer_reply = AnalyzerFailed | Completion jval

datatype send_reply = Delivered | SendFailed

datatype write_reply = Written | WriteFailed disk_file

text \<open>
  The replies of the outside are functions of the time of the request, which is the
  length of the trace when it is made, and of what is asked. \<open>set_iteration\<close> is the order
  in which Python iterates over a set.
\<close>

record world =
  md5_hexdigest :: "string \<Rightarrow> string"
  isoformat_strftime :: "string \<Rightarrow> string option"
  news_api :: "nat \<Rightarrow> string \<Rightarrow> feed_reply"
  deepseek :: "nat \<Rightarrow> string \<Rightarrow> analyzer_reply"
  telegram :: "nat \<Rightarrow> string \<Rightarrow> send_reply"
  disk_write :: "nat \<Rightarrow> write_reply"
  set_iteration :: "string set \<Rightarrow> string list"

record config =
  news_categories :: "string list"
  fetch_interval_seconds :: nat

definition emit :: "event \<Rightarrow> state \<Rightarrow> state" where
  "emit e s = s\<lparr>trace := trace s @ [e]\<rparr>"

definition now :: "state \<Rightarrow> nat" where
  "now s = length (trace s)"

subsection \<open>The deduplication store on disk\<close>

text \<open>
  Reading a text file: the line ends \<open>\r\n\<close> and \<open>\r\<close> become \<open>\n\<close>, and iterating over
  the file gives its lines, each with its line feed.
\<close>

fun universal_newlines :: "string \<Rightarrow> string" where
  "universal_newlines [] = []"
| "universal_newlines [c] = (if c = CR then [LF] else [c])"
| "universal_newlines (c # d # cs) =
     (if c = CR then (if d = LF then LF # universal_newlines cs
                      else LF # universal_newlines (d # cs))
      else c # universal_newlines (d # cs))"

fun readlines :: "string \<Rightarrow> string list" where
  "readlines [] = []"
| "readlines (c # cs) =
     (if c = LF then [c] # readlines cs
      else (case readlines cs of [] \<Rightarrow> [[c]] | l # ls \<Rightarrow> (c # l) # ls))"

text \<open>\<open>"\n".join(xs)\<close>.\<close>

fun join_lines :: "string list \<Rightarrow> string" where
  "join_lines [] = []"
| "join_lines [x] = x"
| "join_lines (x # y # ys) = x @ LF # join_lines (y # ys)"

text \<open>
  \<open>_load_processed_articles\<close> catches \<open>FileNotFoundError\<close> only: any other failure to
  open or read the file leaves the function as an exception.
\<close>

definition load_processed_articles :: "state \<Rightarrow> py_error + state" where
  "load_processed_articles s =
     (case state_file s of
        Missing \<Rightarrow>
          Inr (emit (Log Warning ''No processed articles file found. Starting fresh.'') s)
      | Unreadable \<Rightarrow> Inl OSError
      | Content text \<Rightarrow>
          Inr (emit (Log Info ''Loaded '')
                (s\<lparr>processed_articles :=
                     set (filter (\<lambda>l. l \<noteq> [])
                           (map strip (readlines (universal_newlines text))))\<rparr>)))"

text \<open>
  \<open>_save_processed_articles\<close> catches every exception. A failed write leaves on disk
  whatever the failure left there.
\<close>

definition save_processed_articles :: "world \<Rightarrow> state \<Rightarrow> state" where
  "save_processed_articles w s =
     (case disk_write w (now s) of
        Written \<Rightarrow>
          emit (Log Debug ''Saved '')
            (s\<lparr>state_file :=
                 Content (join_lines (set_iteration w (processed_articles s)))\<rparr>)
      | WriteFailed left \<Rightarrow>
          emit (Log Error ''Failed to save processed articles: '')
            (s\<lparr>state_file := left\<rparr>))"

subsection \<open>The fetcher\<close>

text \<open>The body of \<open>_fetch_news_for_category\<close>: one request.\<close>

definition fetch_news_for_category_body ::
  "world \<Rightarrow> string \<Rightarrow> state \<Rightarrow> (py_error + article list) \<times> state" where
  "fetch_news_for_category_body w category s =
     (let s1 = emit (Get category) s in
      case news_api w (now s) category of
        ConnectionFailed \<Rightarrow> (Inl RequestException, s1)
      | BadStatus code \<Rightarrow> (Inl HTTPError, s1)
      | NotJson \<Rightarrow> (Inl ValueError, s1)
      | NotObject \<Rightarrow> (Inl AttributeError, s1)
      | NoArticles \<Rightarrow> (Inl ValueError, s1)
      | ArticlesNotList \<Rightarrow> (Inl ValueError, s1)
      | Articles articles \<Rightarrow> (Inr articles, emit (Log Info ''Fetched '') s1))"

text \<open>
  The decorator \<open>retry\<close> of the library tenacity, as the code configures it: the call is
  repeated after any exception, \<open>stop_after_attempt\<close> ends the repetition at the given
  attempt number and the last exception is raised again (\<open>reraise=True\<close>);
  \<open>wait_exponential\<close> gives the pause after an attempt.
\<close>

definition wait_exponential :: "nat \<Rightarrow> nat \<Rightarrow> nat \<Rightarrow> nat \<Rightarrow> nat" where
  "wait_exponential multiplier lo hi attempt =
     max (max 0 lo) (min (multiplier * 2 ^ (attempt - 1)) hi)"

function retry ::
  "nat \<Rightarrow> (nat \<Rightarrow> nat) \<Rightarrow> (state \<Rightarrow> (py_error + 'a) \<times> state) \<Rightarrow> nat \<Rightarrow> state
     \<Rightarrow> (py_error + 'a) \<times> state" where
  "retry stop wait f attempt s =
     (case f s of
        (Inr v, s1) \<Rightarrow> (Inr v, s1)
      | (Inl e, s1) \<Rightarrow>
          if stop \<le> attempt then (Inl e, s1)
          else retry stop wait f (Suc attempt) (emit (Sleep (wait attempt)) s1))"
  by pat_completeness auto
termination
  by (relation "measure (\<lambda>(stop, wait, f, attempt, s). stop - attempt)") auto

definition fetch_news_for_category ::
  "world \<Rightarrow> string \<Rightarrow> state \<Rightarrow> (py_error + article list) \<times> state" where
  "fetch_news_for_category w category =
     retry 3 (wait_exponential 1 2 10) (fetch_news_for_category_body w category) 1"

text \<open>The loop of \<open>_fetch_news\<close> over the categories, with its accumulator.\<close>

fun fetch_loop ::
  "world \<Rightarrow> string list \<Rightarrow> article list \<Rightarrow> state \<Rightarrow> article list \<times> state" where
  "fetch_loop w [] all_articles s = (all_articles, s)"
| "fetch_loop w (category # rest) all_articles s =
     (case fetch_news_for_category w category s of
        (Inr articles, s1) \<Rightarrow> fetch_loop w rest (all_articles @ articles) s1
      | (Inl e, s1) \<Rightarrow>
          fetch_loop w rest all_articles
            (emit (Log Error ''Failed to fetch news for category '') s1))"

definition fetch_news :: "config \<Rightarrow> world \<Rightarrow> state \<Rightarrow> article list \<times> state" where
  "fetch_news cfg w s = fetch_loop w (news_categories cfg) [] s"

subsection \<open>Fingerprint, analysis, message\<close>

text \<open>
  \<open>_generate_article_id\<close>: the digest of the f-string that renders the title and the
  description one after the other, each defaulting to the empty text.
\<close>

definition article_content :: "article \<Rightarrow> string" where
  "article_content a = field_str (title a) [] @ field_str (description a) []"

definition generate_article_id :: "world \<Rightarrow> article \<Rightarrow> string" where
  "generate_article_id w a = md5_hexdigest w (article_content a)"

text \<open>
  \<open>_analyze_article\<close>: one request; every exception raised inside the \<open>try\<close> (by the
  request, the status check, the JSON decoding, the indexing of the reply, or by
  \<open>re.search\<close> on a content that is not a string) is logged and gives \<open>None\<close>.
\<close>

definition analyze_article :: "world \<Rightarrow> string \<Rightarrow> state \<Rightarrow> analysis option \<times> state" where
  "analyze_article w headline s =
     (case deepseek w (now s) headline of
        AnalyzerFailed \<Rightarrow> (None, emit (Log Error ''Analysis failed: '') s)
      | Completion (JStr content) \<Rightarrow> (Some (parse_analysis content), s)
      | Completion other \<Rightarrow> (None, emit (Log Error ''Analysis failed: '') s))"

text \<open>\<open>str.replace\<close> of one character by a text.\<close>

definition replace_char :: "char \<Rightarrow> string \<Rightarrow> string \<Rightarrow> string" where
  "replace_char c r s = concat (map (\<lambda>x. if x = c then r else [x]) s)"

text \<open>
  The date of publication: any exception inside the \<open>try\<close> (a value without \<open>replace\<close>,
  a text that \<open>fromisoformat\<close> rejects) gives \<open>N/A\<close>.
\<close>

definition published_at :: "world \<Rightarrow> article \<Rightarrow> string" where
  "published_at w a =
     (case (case publishedAt a of None \<Rightarrow> JStr [] | Some v \<Rightarrow> v) of
        JStr d \<Rightarrow>
          (case isoformat_strftime w (replace_char (CHR ''Z'') ''+00:00'' d) of
             Some t \<Rightarrow> t
           | None \<Rightarrow> ''N/A'')
      | other \<Rightarrow> ''N/A'')"

text \<open>
  \<open>article.get('source', {}).get('name', 'N/A')\<close>: the second \<open>get\<close> is outside the
  \<open>try\<close>, and a source that is not an object has no such method.
\<close>

definition source_name :: "article \<Rightarrow> py_error + string" where
  "source_name a =
     (case source a of
        None \<Rightarrow> Inr ''N/A''
      | Some (SourceObject name) \<Rightarrow> Inr (field_str name ''N/A'')
      | Some SourceNotObject \<Rightarrow> Inl AttributeError)"

text \<open>The three pictographs of the message, as UTF-8 bytes.\<close>

definition newspaper :: string where
  "newspaper = [CHR 0xF0, CHR 0x9F, CHR 0x93, CHR 0xB0]"

definition calendar :: string where
  "calendar = [CHR 0xF0, CHR 0x9F, CHR 0x97, CHR 0x93, CHR 0xEF, CHR 0xB8, CHR 0x8F]"

definition magnifier :: string where
  "magnifier = [CHR 0xF0, CHR 0x9F, CHR 0x94, CHR 0x8D]"

definition format_telegram_message :: "world \<Rightarrow> article \<Rightarrow> analysis \<Rightarrow> py_error + string" where
  "format_telegram_message w a an =
     (let ticker = get_or an ''Ticker'' ''N/A'';
          sector = get_or an ''Sector'' ''N/A'';
          finviz_sector = replace_char (CHR '' '') [] (map lower sector);
          published = published_at w a;
          link = field_str (url a) ''#''
      in case source_name a of
           Inl e \<Rightarrow> Inl e
         | Inr name \<Rightarrow>
             Inr (newspaper @ '' ['' @ field_str (title a) ''N/A'' @ '']('' @ link @ '')'' @ [LF]
               @ ''Source: ['' @ name @ '']('' @ link @ '') | '' @ calendar @ '' '' @ published
               @ [LF, LF]
               @ ''*'' @ magnifier @ '' Analysis*'' @ [LF]
               @ ''Recommendation: **'' @ get_or an ''Recommendation'' ''N/A'' @ ''**'' @ [LF]
               @ ''Confidence: '' @ get_or an ''Confidence'' ''N/A''
               @ '' | Risk: '' @ get_or an ''Risk'' ''N/A'' @ [LF]
               @ ''Rationale: '' @ get_or an ''Why'' ''N/A'' @ [LF, LF]
               @ ''Ticker: `$'' @ ticker @ ''` | Sector: ['' @ sector
               @ ''](https://finviz.com/screener.ashx?f=sec_'' @ finviz_sector @ ''&v=211)''
               @ [LF]
               @ ''[Yahoo Finance](https://finance.yahoo.com/quote/'' @ ticker
               @ '') | [Finviz](https://finviz.com/quote.ashx?t='' @ ticker
               @ '') | [TradingView](https://www.tradingview.com/symbols/'' @ ticker @ ''/)''))"

text \<open>
  \<open>_send_telegram_message\<close>: one request; a \<open>RequestException\<close> (a failed request or a
  status that is not a success) is logged, and nothing is returned either way.
\<close>

definition send_telegram_message :: "world \<Rightarrow> string \<Rightarrow> state \<Rightarrow> state" where
  "send_telegram_message w message s =
     (case telegram w (now s) message of
        Delivered \<Rightarrow> emit (Log Info ''Telegram message sent successfully.'') s
      | SendFailed \<Rightarrow> emit (Log Error ''Telegram API error: '') s)"

subsection \<open>The orchestrator\<close>

text \<open>
  \<open>_process_article\<close>. The result is the exception that left the function, if any, and
  the state at that point. A dictionary is true when it is not empty.
\<close>

definition process_article :: "world \<Rightarrow> article \<Rightarrow> state \<Rightarrow> py_error option \<times> state" where
  "process_article w a s =
     (let article_id = generate_article_id w a in
      if article_id \<in> processed_articles s then (None, s)
      else
        case title a of
          None \<Rightarrow> (None, s)
        | Some headline \<Rightarrow>
            if \<not> truthy headline then (None, s)
            else
              case analyze_article w (py_str headline)
                     (emit (Analyze article_id (py_str headline)) s) of
                (None, s1) \<Rightarrow> (None, s1)
              | (Some an, s1) \<Rightarrow>
                  if an \<noteq> [] \<and> get an ''Ticker'' \<noteq> Some ''N/A'' then
                    case format_telegram_message w a an of
                      Inl e \<Rightarrow> (Some e, s1)
                    | Inr message \<Rightarrow>
                        let s2 = send_telegram_message w message
                                   (emit (Send article_id message) s1)
                        in (None, s2\<lparr>processed_articles :=
                                        insert article_id (processed_articles s2)\<rparr>)
                  else (None, s1))"

text \<open>The \<open>for\<close> loop of \<open>run\<close>: an exception ends it.\<close>

fun process_articles :: "world \<Rightarrow> article list \<Rightarrow> state \<Rightarrow> py_error option \<times> state" where
  "process_articles w [] s = (None, s)"
| "process_articles w (a # rest) s =
     (case process_article w a s of
        (None, s1) \<Rightarrow> process_articles w rest s1
      | (Some e, s1) \<Rightarrow> (Some e, s1))"

text \<open>One turn of the \<open>while\<close> loop of \<open>run\<close>, with its \<open>try\<close>.\<close>

definition cycle :: "config \<Rightarrow> world \<Rightarrow> state \<Rightarrow> state" where
  "cycle cfg w s =
     (case fetch_news cfg w s of
        (articles, s1) \<Rightarrow>
          (case process_articles w articles s1 of
             (None, s2) \<Rightarrow>
               emit (Sleep (fetch_interval_seconds cfg)) (save_processed_articles w s2)
           | (Some e, s2) \<Rightarrow>
               emit (Sleep 60) (emit (Log Error ''Critical error in main loop: '') s2)))"

text \<open>
  The loop of \<open>run\<close> never ends by itself; \<open>cycles n\<close> is the state after its first \<open>n\<close>
  turns.
\<close>

fun cycles :: "nat \<Rightarrow> config \<Rightarrow> world \<Rightarrow> state \<Rightarrow> state" where
  "cycles 0 cfg w s = s"
| "cycles (Suc n) cfg w s = cycles n cfg w (cycle cfg w s)"

text \<open>
  \<open>run\<close>, up to its first \<open>n\<close> turns. The loading is outside the \<open>try\<close> of the loop: an
  exception that leaves it ends the process.
\<close>

definition run :: "nat \<Rightarrow> config \<Rightarrow> world \<Rightarrow> state \<Rightarrow> py_error + state" where
  "run n cfg w s =
     (case load_processed_articles s of
        Inl e \<Rightarrow> Inl e
      | Inr s1 \<Rightarrow>
          Inr (cycles n cfg w (emit (Log Info ''Trading bot started successfully.'') s1)))"

text \<open>A bot as \<open>__init__\<close> leaves it, beside a given state file.\<close>

definition init :: "disk_file \<Rightarrow> state" where
  "init f = \<lparr>processed_articles = {}, state_file = f, trace = []\<rparr>"

subsection \<open>Observations of a trace\<close>

fun is_send :: "string \<Rightarrow> event \<Rightarrow> bool" where
  "is_send i (Send j m) = (i = j)"
| "is_send i e = False"

fun is_analyze :: "string \<Rightarrow> event \<Rightarrow> bool" where
  "is_analyze i (Analyze j h) = (i = j)"
| "is_analyze i e = False"


text \<open>The numbers of messages and of analysis requests made for a fingerprint.\<close>

definition sends :: "string \<Rightarrow> event list \<Rightarrow> nat" where
  "sends i t = length (filter (is_send i) t)"

definition analyses :: "string \<Rightarrow> event list \<Rightarrow> nat" where
  "analyses i t = length (filter (is_analyze i) t)"

text \<open>After the first message for a fingerprint, nothing more is done for it.\<close>

fun quiet_after_send :: "string \<Rightarrow> event list \<Rightarrow> bool" where
  "quiet_after_send i [] = True"
| "quiet_after_send i (e # es) =
     (if is_send i e then sends i es = 0 \<and> analyses i es = 0
      else quiet_after_send i es)"

subsection \<open>What the specification says of the parsed values\<close>




subsection \<open>What the specification says of the store and of the fetcher\<close>







subsection \<open>Sample inputs\<close>

text \<open>
  An article, the same article with \<open>"source": null\<close>, and a world for the examples: the
  feed is down for the category \<open>business\<close> and serves the given article for any other
  category, the analysis service always gives the same reply, no message is delivered,
  and the disk takes every write. The digest can be any function; the examples take the
  identity, which keeps fingerprints readable.
\<close>

definition sample_article :: article where
  "sample_article =
     \<lparr>title = Some (JStr ''Apple soars''), description = Some (JStr ''Shares up''),
      url = Some (JStr ''https://example.org/a''), publishedAt = None,
      source = Some (SourceObject (Some (JStr ''Wire'')))\<rparr>"

definition null_source_article :: article where
  "null_source_article = sample_article\<lparr>source := Some SourceNotObject\<rparr>"

definition sample_id :: string where
  "sample_id = ''Apple soarsShares up''"

definition listing :: "string list \<Rightarrow> string set \<Rightarrow> string list" where
  "listing candidates S = filter (\<lambda>x. x \<in> S) candidates"

definition sample_world :: "article \<Rightarrow> analyzer_reply \<Rightarrow> world" where
  "sample_world a reply =
     \<lparr>md5_hexdigest = (\<lambda>text. text),
      isoformat_strftime = (\<lambda>text. None),
      news_api = (\<lambda>t category. if category = ''business'' then ConnectionFailed
                               else Articles [a]),
      deepseek = (\<lambda>t headline. reply),
      telegram = (\<lambda>t message. SendFailed),
      disk_write = (\<lambda>t. Written),
      set_iteration = listing [''def456'', sample_id, ''abc123'']\<rparr>"


section \<open>Properties of the parser\<close>

subsection \<open>What a match tells about the text\<close>




lemma lit_D: "r \<in> set (lit w s) \<Longrightarrow> \<exists>x. s = x @ r \<and> map lower x = map lower w"
proof (induction w s rule: lit.induct)
  case (1 s)
  then show ?case by simp
next
  case (2 c cs)
  then show ?case by simp
next
  case (3 c cs d ds)
  then have eq: "lower c = lower d" and "r \<in> set (lit cs ds)" by (auto split: if_splits)
  with 3 obtain x where "ds = x @ r" "map lower x = map lower cs" by auto
  with eq have "d # ds = (d # x) @ r \<and> map lower (d # x) = map lower (c # cs)" by simp
  then show ?case by blast
qed



lemma star_greedy_D: "r \<in> set (star_greedy P s) \<Longrightarrow> \<exists>x. s = x @ r \<and> list_all P x"
proof (induction s)
  case Nil
  then show ?case by simp
next
  case (Cons c cs)
  show ?case
  proof (cases "r = c # cs")
    case True
    then have "c # cs = [] @ r \<and> list_all P []" by simp
    then show ?thesis by blast
  next
    case False
    with Cons.prems have "P c" "r \<in> set (star_greedy P cs)" by (auto split: if_splits)
    with Cons.IH obtain x where "cs = x @ r" "list_all P x" by auto
    with \<open>P c\<close> have "c # cs = (c # x) @ r \<and> list_all P (c # x)" by simp
    then show ?thesis by blast
  qed
qed




lemma label_D: "r \<in> set (label l s) \<Longrightarrow> \<exists>x. s = x @ r"
  unfolding label_def seq_def by (fastforce dest: lit_D star_greedy_D)

subsection \<open>Characters and stripping\<close>





























subsection \<open>The parser always answers, with all six fields\<close>

text \<open>
  C4 (parser totality). For every text, \<open>parse_analysis\<close> returns a dictionary whose keys
  are exactly Recommendation, Confidence, Risk, Why, Ticker and Sector, in this order and
  each once; the value of a key is the stripped first group of the first match of its
  pattern, or \<open>N/A\<close> when the pattern does not match. The functions of the model are
  total, so no text makes the parser fail or run forever.
\<close>

theorem parse_analysis_total:
  "map fst (parse_analysis content) =
     [''Recommendation'', ''Confidence'', ''Risk'', ''Why'', ''Ticker'', ''Sector'']
   \<and> dom (get (parse_analysis content)) =
     {''Recommendation'', ''Confidence'', ''Risk'', ''Why'', ''Ticker'', ''Sector''}
   \<and> map snd (parse_analysis content) =
     map (\<lambda>p. case search p content of Some g \<Rightarrow> strip g | None \<Rightarrow> ''N/A'')
       [recommendation_pattern, confidence_pattern, risk_pattern, why_pattern,
        ticker_pattern, sector_pattern]"
proof -
  have keys: "map fst (parse_analysis content) =
     [''Recommendation'', ''Confidence'', ''Risk'', ''Why'', ''Ticker'', ''Sector'']"
    by (simp add: parse_analysis_def patterns_def)
  have "dom (get (parse_analysis content)) = set (map fst (parse_analysis content))"
    unfolding get_def by (simp add: dom_map_of_conv_image_fst)
  with keys show ?thesis
    by (auto simp: parse_analysis_def patterns_def)
qed

theorem parse_analysis_total_witness:
  "map fst (parse_analysis []) =
     [''Recommendation'', ''Confidence'', ''Risk'', ''Why'', ''Ticker'', ''Sector'']
   \<and> map snd (parse_analysis []) = [''N/A'', ''N/A'', ''N/A'', ''N/A'', ''N/A'', ''N/A'']"
proof -
  have "map (\<lambda>p. case search p [] of Some g \<Rightarrow> strip g | None \<Rightarrow> ''N/A'')
       [recommendation_pattern, confidence_pattern, risk_pattern, why_pattern,
        ticker_pattern, sector_pattern] = [''N/A'', ''N/A'', ''N/A'', ''N/A'', ''N/A'', ''N/A'']"
    by code_simp
  with parse_analysis_total [of "[]"] show ?thesis by simp
qed

subsection \<open>The shape of the extracted values\<close>




subsection \<open>Where the Why field ends\<close>



















section \<open>Properties of the deduplication store\<close>

subsection \<open>Saving and loading\<close>












subsection \<open>Failures of the state file\<close>

text \<open>
  A missing file is logged as a warning and leaves the set empty; a failed write is
  logged as an error and leaves the set as it is.
\<close>

lemma load_missing:
  "state_file s = Missing \<Longrightarrow>
     load_processed_articles s =
       Inr (emit (Log Warning ''No processed articles file found. Starting fresh.'') s)"
  by (simp add: load_processed_articles_def)

lemma load_missing_init:
  "\<exists>s'. load_processed_articles (init Missing) = Inr s' \<and> processed_articles s' = {}"
  by (simp add: load_processed_articles_def init_def emit_def)

lemma save_keeps_store:
  "processed_articles (save_processed_articles w s) = processed_articles s"
  by (simp add: save_processed_articles_def emit_def split: write_reply.splits)

lemma save_failure_logged:
  "disk_write w (now s) = WriteFailed left \<Longrightarrow>
     trace (save_processed_articles w s) =
       trace s @ [Log Error ''Failed to save processed articles: '']"
  by (simp add: save_processed_articles_def emit_def)

text \<open>
  C9 (local resource failure is never fatal) does not hold for a state file that exists
  and cannot be read: \<open>_load_processed_articles\<close> catches \<open>FileNotFoundError\<close> only, and
  \<open>run\<close> calls it outside the \<open>try\<close> of its loop. The exception leaves \<open>run\<close>, whatever
  the configuration and the world, before the first turn of the loop.
\<close>

theorem unreadable_state_file_ends_run:
  "load_processed_articles (init Unreadable) = Inl OSError
   \<and> run n cfg w (init Unreadable) = Inl OSError"
  by (simp add: run_def load_processed_articles_def init_def)

section \<open>Fingerprints\<close>

lemma process_article_seen:
  "generate_article_id w a \<in> processed_articles s \<Longrightarrow> process_article w a s = (None, s)"
  by (simp add: process_article_def)

text \<open>
  C10 (the fingerprint collapses field boundaries). The identifier of an article is the
  digest of the rendered title followed by the rendered description, and of nothing
  else: two articles with the same concatenation have the same identifier, as title
  \<open>AB\<close> with description \<open>C\<close> and title \<open>A\<close> with description \<open>BC\<close> do whatever their other
  fields are; and once the identifier of one is in the store, the other is skipped.
\<close>

theorem fingerprint_collapses_fields:
  "generate_article_id w a = md5_hexdigest w (field_str (title a) [] @ field_str (description a) [])
   \<and> (article_content a = article_content b \<longrightarrow>
        generate_article_id w a = generate_article_id w b)
   \<and> generate_article_id w
        \<lparr>title = Some (JStr ''AB''), description = Some (JStr ''C''),
         url = u1, publishedAt = p1, source = s1\<rparr>
      = generate_article_id w
        \<lparr>title = Some (JStr ''A''), description = Some (JStr ''BC''),
         url = u2, publishedAt = p2, source = s2\<rparr>
   \<and> (article_content a = article_content b
        \<and> generate_article_id w a \<in> processed_articles s \<longrightarrow>
          process_article w b s = (None, s))"
proof (intro conjI impI)
  show "generate_article_id w a =
      md5_hexdigest w (field_str (title a) [] @ field_str (description a) [])"
    by (simp add: generate_article_id_def article_content_def)
  show "generate_article_id w
        \<lparr>title = Some (JStr ''AB''), description = Some (JStr ''C''),
         url = u1, publishedAt = p1, source = s1\<rparr>
      = generate_article_id w
        \<lparr>title = Some (JStr ''A''), description = Some (JStr ''BC''),
         url = u2, publishedAt = p2, source = s2\<rparr>"
    by (simp add: generate_article_id_def article_content_def field_str_def)
next
  assume "article_content a = article_content b"
  then show "generate_article_id w a = generate_article_id w b"
    by (simp add: generate_article_id_def)
next
  assume "article_content a = article_content b
        \<and> generate_article_id w a \<in> processed_articles s"
  then have "generate_article_id w b \<in> processed_articles s"
    by (auto simp: generate_article_id_def)
  then show "process_article w b s = (None, s)" by (rule process_article_seen)
qed

theorem fingerprint_collapses_fields_witness:
  "article_content
     \<lparr>title = Some (JStr ''AB''), description = Some (JStr ''C''),
      url = None, publishedAt = None, source = None\<rparr>
   = article_content
     \<lparr>title = Some (JStr ''A''), description = Some (JStr ''BC''),
      url = Some JNull, publishedAt = None, source = None\<rparr>
   \<and> process_article (sample_world sample_article AnalyzerFailed)
       \<lparr>title = Some (JStr ''A''), description = Some (JStr ''BC''),
        url = Some JNull, publishedAt = None, source = None\<rparr>
       ((init Missing)\<lparr>processed_articles := {''ABC''}\<rparr>)
     = (None, (init Missing)\<lparr>processed_articles := {''ABC''}\<rparr>)"
proof -
  let ?a = "\<lparr>title = Some (JStr ''AB''), description = Some (JStr ''C''),
      url = None, publishedAt = None, source = None\<rparr>"
  let ?b = "\<lparr>title = Some (JStr ''A''), description = Some (JStr ''BC''),
      url = Some JNull, publishedAt = None, source = None\<rparr>"
  let ?w = "sample_world sample_article AnalyzerFailed"
  let ?s = "(init Missing)\<lparr>processed_articles := {''ABC''}\<rparr>"
  have c: "article_content ?a = article_content ?b"
    by (simp add: article_content_def field_str_def)
  have m: "generate_article_id ?w ?a \<in> processed_articles ?s"
    by (simp add: generate_article_id_def article_content_def field_str_def sample_world_def)
  from fingerprint_collapses_fields [of ?w ?a ?b] c m show ?thesis by simp
qed

section \<open>Properties of the fetcher\<close>














end
